theory Spec2Isabelle
  imports Main "HOL-Library.Word"
begin

section \<open>Hollow Host: the web client's command form\<close>

text \<open>
  The only program text of the repository is \<^verbatim>\<open>src/ui/static/js/main.js\<close>: a
  \<^verbatim>\<open>submit\<close> handler on the form \<^verbatim>\<open>#command-form\<close>. It reads the text of
  \<^verbatim>\<open>#player-input\<close>, appends it to \<^verbatim>\<open>.message-log\<close>, posts it to
  \<^verbatim>\<open>/send\<close> and appends the server's answer. The handler is embedded below as a
  function from the page's state and what the environment supplies during the run
  (the server's reply, the log's scroll height) to the settled state of the returned
  promise and the page's new state. The script registers the handler when the document
  has loaded and only if \<^verbatim>\<open>#command-form\<close> exists, and then focuses the input
  field; a submit event presupposes the form, and the focus plays no part below.

  The combat engine of the specification (\<^verbatim>\<open>startEncounter\<close>, \<^verbatim>\<open>advanceTurn\<close>,
  \<^verbatim>\<open>declareAction\<close>, \<^verbatim>\<open>evaluateFormula\<close>, \<^verbatim>\<open>emit\<close>) is planned work described
  in \<^verbatim>\<open>src/docs\<close>; no file of the repository implements it, so nothing of it is
  embedded here.
\<close>

subsection \<open>JavaScript strings\<close>

text \<open>
  A JavaScript string is a sequence of 16-bit code units (UTF-16, surrogates not
  necessarily paired). Literals of the script are ASCII and written through \<open>ascii\<close>.
\<close>

type_synonym code_unit = "16 word"
type_synonym jsstring = "code_unit list"

definition ascii :: "string \<Rightarrow> jsstring" where
  "ascii s = map of_char s"

text \<open>
  \<^verbatim>\<open>String.prototype.trim\<close> removes WhiteSpace and LineTerminator code points from
  both ends (ECMAScript, TrimString): TAB, VT, FF, SP, NBSP, ZWNBSP, the other space
  separators of Unicode, and LF, CR, LS, PS.
\<close>

definition is_white_space :: "code_unit \<Rightarrow> bool" where
  "is_white_space c \<longleftrightarrow>
     c = 0x0009 \<or> c = 0x000B \<or> c = 0x000C \<or> c = 0x0020 \<or> c = 0x00A0 \<or> c = 0xFEFF \<or>
     c = 0x1680 \<or> (0x2000 \<le> c \<and> c \<le> 0x200A) \<or> c = 0x202F \<or> c = 0x205F \<or> c = 0x3000"

definition is_line_terminator :: "code_unit \<Rightarrow> bool" where
  "is_line_terminator c \<longleftrightarrow> c = 0x000A \<or> c = 0x000D \<or> c = 0x2028 \<or> c = 0x2029"

definition trimmable :: "code_unit \<Rightarrow> bool" where
  "trimmable c \<longleftrightarrow> is_white_space c \<or> is_line_terminator c"

definition trim :: "jsstring \<Rightarrow> jsstring" where
  "trim s = rev (dropWhile trimmable (rev (dropWhile trimmable s)))"

subsection \<open>Exceptions\<close>

text \<open>
  The errors that can be thrown while the handler runs: \<^verbatim>\<open>TypeError\<close> (a property
  read on \<^verbatim>\<open>null\<close> or \<^verbatim>\<open>undefined\<close>, a failed \<^verbatim>\<open>fetch\<close>), \<^verbatim>\<open>URIError\<close>
  (\<^verbatim>\<open>encodeURIComponent\<close>), \<^verbatim>\<open>SyntaxError\<close> (a body that is not JSON) and
  \<^verbatim>\<open>AbortError\<close> (a request or body read that was aborted).
\<close>

datatype js_error = TypeError | URIError | SyntaxError | AbortError

subsection \<open>encodeURIComponent\<close>

text \<open>
  ECMAScript's \<^verbatim>\<open>Encode\<close> with the unescaped set of \<^verbatim>\<open>encodeURIComponent\<close>:
  letters, digits and \<^verbatim>\<open>- _ . ! ~ * ' ( )\<close> are copied; every other code point is
  written as the \<^verbatim>\<open>%XX\<close> escapes of its UTF-8 octets; a surrogate without its
  partner throws \<^verbatim>\<open>URIError\<close>.
\<close>

definition uri_unescaped :: "code_unit \<Rightarrow> bool" where
  "uri_unescaped c \<longleftrightarrow>
     (0x41 \<le> c \<and> c \<le> 0x5A) \<or> (0x61 \<le> c \<and> c \<le> 0x7A) \<or> (0x30 \<le> c \<and> c \<le> 0x39) \<or>
     c = 0x2D \<or> c = 0x5F \<or> c = 0x2E \<or> c = 0x21 \<or> c = 0x7E \<or> c = 0x2A \<or>
     c = 0x27 \<or> c = 0x28 \<or> c = 0x29"

definition is_leading_surrogate :: "code_unit \<Rightarrow> bool" where
  "is_leading_surrogate c \<longleftrightarrow> 0xD800 \<le> c \<and> c \<le> 0xDBFF"

definition is_trailing_surrogate :: "code_unit \<Rightarrow> bool" where
  "is_trailing_surrogate c \<longleftrightarrow> 0xDC00 \<le> c \<and> c \<le> 0xDFFF"

definition surrogate_pair :: "code_unit \<Rightarrow> code_unit \<Rightarrow> nat" where
  "surrogate_pair lead trail =
     (unat lead - 0xD800) * 0x400 + (unat trail - 0xDC00) + 0x10000"

definition utf8 :: "nat \<Rightarrow> nat list" where
  "utf8 cp =
     (if cp < 0x80 then [cp]
      else if cp < 0x800 then [0xC0 + cp div 0x40, 0x80 + cp mod 0x40]
      else if cp < 0x10000 then
        [0xE0 + cp div 0x1000, 0x80 + cp div 0x40 mod 0x40, 0x80 + cp mod 0x40]
      else
        [0xF0 + cp div 0x40000, 0x80 + cp div 0x1000 mod 0x40,
         0x80 + cp div 0x40 mod 0x40, 0x80 + cp mod 0x40])"

definition hex_digit :: "nat \<Rightarrow> code_unit" where
  "hex_digit n = (if n < 10 then of_nat (0x30 + n) else of_nat (0x41 + (n - 10)))"

definition percent_octet :: "nat \<Rightarrow> jsstring" where
  "percent_octet b = [0x25, hex_digit (b div 16), hex_digit (b mod 16)]"

definition escape :: "nat \<Rightarrow> jsstring" where
  "escape cp = concat (map percent_octet (utf8 cp))"

definition prepend :: "jsstring \<Rightarrow> js_error + jsstring \<Rightarrow> js_error + jsstring" where
  "prepend p r = (case r of Inl e \<Rightarrow> Inl e | Inr t \<Rightarrow> Inr (p @ t))"

fun encodeURIComponent :: "jsstring \<Rightarrow> js_error + jsstring" where
  "encodeURIComponent [] = Inr []"
| "encodeURIComponent (c # cs) =
     (if uri_unescaped c then prepend [c] (encodeURIComponent cs)
      else if is_trailing_surrogate c then Inl URIError
      else if is_leading_surrogate c then
        (case cs of
           [] \<Rightarrow> Inl URIError
         | d # ds \<Rightarrow>
             if is_trailing_surrogate d
             then prepend (escape (surrogate_pair c d)) (encodeURIComponent ds)
             else Inl URIError)
      else prepend (escape (unat c)) (encodeURIComponent cs))"

text \<open>
  A string is well formed when each surrogate in it is one half of a pair. These are
  the strings on which \<^verbatim>\<open>encodeURIComponent\<close> returns
  (\<open>encodeURIComponent_returns\<close> below).
\<close>

fun well_formed :: "jsstring \<Rightarrow> bool" where
  "well_formed [] = True"
| "well_formed (c # cs) =
     (if is_trailing_surrogate c then False
      else if is_leading_surrogate c then
        (case cs of [] \<Rightarrow> False | d # ds \<Rightarrow> is_trailing_surrogate d \<and> well_formed ds)
      else well_formed cs)"

subsection \<open>JSON values and property reads\<close>

text \<open>
  \<^verbatim>\<open>response.json()\<close> yields a JSON value. Numbers are IEEE doubles; the script never
  looks into one, so their type is left abstract. An object is the list of its own
  properties, each key once (\<open>map_of\<close> reads the first binding of a key). A JavaScript
  value read by the script is a JSON value or \<^verbatim>\<open>undefined\<close> (\<open>None\<close>).
\<close>

typedecl float64

datatype json =
    JNull
  | JBool bool
  | JNum float64
  | JStr jsstring
  | JArr "json list"
  | JObj "(jsstring \<times> json) list"

type_synonym jsval = "json option"

text \<open>
  \<^verbatim>\<open>v.k\<close> for the property names the script reads (\<^verbatim>\<open>type\<close>, \<^verbatim>\<open>formatted\<close>,
  \<^verbatim>\<open>response\<close>, \<^verbatim>\<open>result\<close>, \<^verbatim>\<open>message\<close>), none of which the built-in prototypes
  define: reading a property of \<^verbatim>\<open>undefined\<close> or \<^verbatim>\<open>null\<close> throws
  \<^verbatim>\<open>TypeError\<close>, an object gives its own property or \<^verbatim>\<open>undefined\<close>, every other
  value gives \<^verbatim>\<open>undefined\<close>.
\<close>

fun get_prop :: "jsval \<Rightarrow> jsstring \<Rightarrow> js_error + jsval" where
  "get_prop None k = Inl TypeError"
| "get_prop (Some JNull) k = Inl TypeError"
| "get_prop (Some (JObj kvs)) k = Inr (map_of kvs k)"
| "get_prop (Some v) k = Inr None"

text \<open>
  ECMAScript's \<^verbatim>\<open>ToString\<close> on a JSON value throws \<^verbatim>\<open>TypeError\<close> in one
  situation. An object is converted by \<^verbatim>\<open>OrdinaryToPrimitive\<close>, which calls the
  object's \<^verbatim>\<open>toString\<close> and then its \<^verbatim>\<open>valueOf\<close> if they are callable. An
  own property \<^verbatim>\<open>toString\<close> of a parsed object is a JSON value, never callable,
  and hides \<^verbatim>\<open>Object.prototype.toString\<close>; \<^verbatim>\<open>valueOf\<close>, own or inherited,
  yields no primitive either, so the conversion throws. Without that own property
  the result is \<^verbatim>\<open>"[object Object]"\<close>. An array is joined by
  \<^verbatim>\<open>Array.prototype.join\<close>, which takes \<^verbatim>\<open>null\<close> as the empty string and
  converts every other element, so it throws when one of them does. Booleans,
  numbers and strings convert without error.
\<close>

fun to_string_throws :: "json \<Rightarrow> bool" where
  "to_string_throws (JArr vs) = list_ex to_string_throws vs"
| "to_string_throws (JObj kvs) = (map_of kvs (ascii ''toString'') \<noteq> None)"
| "to_string_throws v = False"

text \<open>
  \<^verbatim>\<open>el.textContent = v\<close>: the attribute is a nullable \<^verbatim>\<open>DOMString\<close>, so
  \<^verbatim>\<open>undefined\<close> and \<^verbatim>\<open>null\<close> are stored as they are (and shown as the empty
  string), and every other value goes through \<^verbatim>\<open>ToString\<close>.
\<close>

definition text_throws :: "jsval \<Rightarrow> bool" where
  "text_throws v = (case v of None \<Rightarrow> False | Some j \<Rightarrow> to_string_throws j)"

text \<open>\<^verbatim>\<open>v === 'literal'\<close>: true for that string only.\<close>

definition strict_eq :: "jsval \<Rightarrow> jsstring \<Rightarrow> bool" where
  "strict_eq v lit \<longleftrightarrow> v = Some (JStr lit)"

subsection \<open>The page\<close>

text \<open>
  An element of the log carries its class and the value the script assigned to
  \<^verbatim>\<open>textContent\<close> (the DOM shows its string conversion; an assignment whose
  conversion throws never reaches the log). The log is its children and
  its scroll offset. \<open>playerInput\<close> is the value of \<^verbatim>\<open>#player-input\<close>, and
  \<open>messageLog\<close> the element \<^verbatim>\<open>.message-log\<close>; either is \<open>None\<close> when the lookup at
  load time returned \<^verbatim>\<open>null\<close>. \<open>fetched\<close> lists the requests handed to
  \<^verbatim>\<open>fetch\<close>, \<open>console\<close> the
  errors given to \<^verbatim>\<open>console.error\<close>, and \<open>defaultPrevented\<close> is the flag of the
  submit event.
\<close>

record element =
  className :: jsstring
  textContent :: jsval

record message_log =
  children :: "element list"
  scrollTop :: nat

record request =
  url :: jsstring
  http_method :: jsstring
  headers :: "(jsstring \<times> jsstring) list"
  body :: jsstring

record page =
  playerInput :: "jsstring option"
  messageLog :: "message_log option"
  fetched :: "request list"
  console :: "js_error list"
  defaultPrevented :: bool

text \<open>
  What the environment supplies while the handler runs: the promise of \<^verbatim>\<open>fetch\<close>
  rejects with an error, or it resolves and \<^verbatim>\<open>response.json()\<close> rejects with an
  error, or that yields a JSON value; and the log's \<^verbatim>\<open>scrollHeight\<close> when it is
  read. The handler is modelled as one run from the submit event to the settling of
  its promise; other events handled while it awaits are not interleaved.
\<close>

datatype server_reply = FetchRejected js_error | JsonRejected js_error | JsonParsed json

record env =
  reply :: server_reply
  scrollHeight :: nat

text \<open>The promise of the \<^verbatim>\<open>async\<close> handler is fulfilled or rejected.\<close>

datatype outcome = Returned | Rejected js_error

subsection \<open>The submit handler\<close>

definition message :: "string \<Rightarrow> jsval \<Rightarrow> element" where
  "message cls v = \<lparr>className = ascii cls, textContent = v\<rparr>"

definition player_message :: "jsstring \<Rightarrow> element" where
  "player_message input = message ''message player-message'' (Some (JStr input))"

definition dm_message :: "jsval \<Rightarrow> element" where
  "dm_message v = message ''message dm-message'' v"

definition error_message :: element where
  "error_message =
     message ''message error-message''
       (Some (JStr (ascii ''Error processing command. Please try again.'')))"

text \<open>\<^verbatim>\<open>messageLog.appendChild(el)\<close> for a fresh element; \<^verbatim>\<open>messageLog\<close> may be null.\<close>

definition appendChild :: "element \<Rightarrow> page \<Rightarrow> js_error + page" where
  "appendChild el s =
     (case messageLog s of
        None \<Rightarrow> Inl TypeError
      | Some l \<Rightarrow> Inr (s\<lparr>messageLog := Some (l\<lparr>children := children l @ [el]\<rparr>)\<rparr>))"

text \<open>
  \<^verbatim>\<open>fetch('/send', {method: 'POST', headers: {'Content-Type':
  'application/x-www-form-urlencoded'}, body: `player_input=${encoded}`})\<close>
\<close>

definition send_request :: "jsstring \<Rightarrow> request" where
  "send_request encoded =
     \<lparr>url = ascii ''/send'', http_method = ascii ''POST'',
      headers = [(ascii ''Content-Type'', ascii ''application/x-www-form-urlencoded'')],
      body = ascii ''player_input='' @ encoded\<rparr>"

text \<open>\<^verbatim>\<open>data.type === 'literal'\<close>: the property read may throw.\<close>

definition type_equals :: "json \<Rightarrow> string \<Rightarrow> js_error + bool" where
  "type_equals data lit =
     (case get_prop (Some data) (ascii ''type'') of
        Inl e \<Rightarrow> Inl e
      | Inr t \<Rightarrow> Inr (strict_eq t (ascii lit)))"

text \<open>
  \<^verbatim>\<open>const dmMessage = document.createElement('div'); dmMessage.className =
  'message dm-message'; dmMessage.textContent = text; messageLog.appendChild(dmMessage)\<close>
  where reading \<^verbatim>\<open>text\<close> may throw, and so may its assignment to
  \<^verbatim>\<open>textContent\<close>; the element is appended last, so a throw leaves the page as it
  was.
\<close>

definition append_dm :: "js_error + jsval \<Rightarrow> page \<Rightarrow> js_error + page" where
  "append_dm text s =
     (case text of
        Inl e \<Rightarrow> Inl e
      | Inr v \<Rightarrow>
          if text_throws v then Inl TypeError
          else appendChild (dm_message v) s)"

text \<open>\<^verbatim>\<open>data.result.message\<close>\<close>

definition result_message :: "json \<Rightarrow> js_error + jsval" where
  "result_message data =
     (case get_prop (Some data) (ascii ''result'') of
        Inl e \<Rightarrow> Inl e
      | Inr r \<Rightarrow> get_prop r (ascii ''message''))"

text \<open>
  The chain \<^verbatim>\<open>if (data.type === 'roll') ... else if (data.type === 'narrative') ...
  else if (data.type === 'command') ...\<close>, which has no final \<^verbatim>\<open>else\<close>.
\<close>

definition render :: "json \<Rightarrow> page \<Rightarrow> js_error + page" where
  "render data s =
     (case type_equals data ''roll'' of
        Inl e \<Rightarrow> Inl e
      | Inr True \<Rightarrow> append_dm (get_prop (Some data) (ascii ''formatted'')) s
      | Inr False \<Rightarrow>
          (case type_equals data ''narrative'' of
             Inl e \<Rightarrow> Inl e
           | Inr True \<Rightarrow> append_dm (get_prop (Some data) (ascii ''response'')) s
           | Inr False \<Rightarrow>
               (case type_equals data ''command'' of
                  Inl e \<Rightarrow> Inl e
                | Inr True \<Rightarrow> append_dm (result_message data) s
                | Inr False \<Rightarrow> Inr s)))"

text \<open>\<^verbatim>\<open>messageLog.scrollTop = messageLog.scrollHeight\<close>\<close>

definition scroll_to_bottom :: "env \<Rightarrow> page \<Rightarrow> js_error + page" where
  "scroll_to_bottom ev s =
     (case messageLog s of
        None \<Rightarrow> Inl TypeError
      | Some l \<Rightarrow> Inr (s\<lparr>messageLog := Some (l\<lparr>scrollTop := scrollHeight ev\<rparr>)\<rparr>))"

text \<open>
  The \<^verbatim>\<open>try\<close> block: the error thrown, if any, and the page as the block left it.
\<close>

definition try_block :: "env \<Rightarrow> jsstring \<Rightarrow> page \<Rightarrow> js_error option \<times> page" where
  "try_block ev input s =
     (case appendChild (player_message input) s of
        Inl e \<Rightarrow> (Some e, s)
      | Inr s1 \<Rightarrow>
          (let s2 = s1\<lparr>playerInput := Some []\<rparr> in
           case encodeURIComponent input of
             Inl e \<Rightarrow> (Some e, s2)
           | Inr encoded \<Rightarrow>
               (let s3 = s2\<lparr>fetched := fetched s2 @ [send_request encoded]\<rparr> in
                case reply ev of
                  FetchRejected e \<Rightarrow> (Some e, s3)
                | JsonRejected e \<Rightarrow> (Some e, s3)
                | JsonParsed data \<Rightarrow>
                    (case render data s3 of
                       Inl e \<Rightarrow> (Some e, s3)
                     | Inr s4 \<Rightarrow>
                         (case scroll_to_bottom ev s4 of
                            Inl e \<Rightarrow> (Some e, s4)
                          | Inr s5 \<Rightarrow> (None, s5))))))"

text \<open>The \<^verbatim>\<open>catch\<close> block; its own \<^verbatim>\<open>appendChild\<close> is not guarded.\<close>

definition catch_block :: "js_error \<Rightarrow> page \<Rightarrow> outcome \<times> page" where
  "catch_block err s =
     (let s1 = s\<lparr>console := console s @ [err]\<rparr> in
      case appendChild error_message s1 of
        Inl e \<Rightarrow> (Rejected e, s1)
      | Inr s2 \<Rightarrow> (Returned, s2))"

text \<open>
  The handler: \<^verbatim>\<open>e.preventDefault(); const input = playerInput.value.trim(); if
  (!input) return; try { ... } catch (error) { ... }\<close>. The read of
  \<^verbatim>\<open>playerInput.value\<close> is outside the \<^verbatim>\<open>try\<close>.
\<close>

definition submit_handler :: "env \<Rightarrow> page \<Rightarrow> outcome \<times> page" where
  "submit_handler ev s0 =
     (let s = s0\<lparr>defaultPrevented := True\<rparr> in
      case playerInput s of
        None \<Rightarrow> (Rejected TypeError, s)
      | Some v \<Rightarrow>
          (let input = trim v in
           if input = [] then (Returned, s)
           else
             (case try_block ev input s of
                (None, s') \<Rightarrow> (Returned, s')
              | (Some err, s') \<Rightarrow> catch_block err s')))"

subsection \<open>Reading the log; example pages\<close>

text \<open>The children of the log, none for a page without the log.\<close>

definition log_children :: "page \<Rightarrow> element list" where
  "log_children s = (case messageLog s of None \<Rightarrow> [] | Some l \<Rightarrow> children l)"

definition empty_log :: message_log where
  "empty_log = \<lparr>children = [], scrollTop = 0\<rparr>"

definition page_with :: "jsstring \<Rightarrow> page" where
  "page_with v =
     \<lparr>playerInput = Some v, messageLog = Some empty_log, fetched = [], console = [],
      defaultPrevented = False\<rparr>"

definition blank_page :: page where
  "blank_page = page_with (ascii ''   '')"

definition env_with :: "server_reply \<Rightarrow> env" where
  "env_with r = \<lparr>reply = r, scrollHeight = 480\<rparr>"

definition offline :: env where
  "offline = env_with (FetchRejected TypeError)"

definition hi_page :: page where
  "hi_page = page_with (ascii ''hi'')"

definition look_page :: page where
  "look_page = page_with (ascii ''  look around '')"

definition lone_surrogate_page :: page where
  "lone_surrogate_page = page_with [0xD83D]"

text \<open>\<^verbatim>\<open>{"type": "chat", "response": "Hello"}\<close>\<close>

definition chat_reply :: json where
  "chat_reply =
     JObj [(ascii ''type'', JStr (ascii ''chat'')), (ascii ''response'', JStr (ascii ''Hello''))]"

text \<open>\<^verbatim>\<open>{"type": "command"}\<close>\<close>

definition bare_command_reply :: json where
  "bare_command_reply = JObj [(ascii ''type'', JStr (ascii ''command''))]"

text \<open>\<^verbatim>\<open>{"type": "command", "result": {"message": "Door opened"}}\<close>\<close>

definition command_reply :: json where
  "command_reply =
     JObj [(ascii ''type'', JStr (ascii ''command'')),
           (ascii ''result'', JObj [(ascii ''message'', JStr (ascii ''Door opened''))])]"

text \<open>\<^verbatim>\<open>{"type": "narrative", "response": "You see a door."}\<close>\<close>

definition narrative_reply :: json where
  "narrative_reply =
     JObj [(ascii ''type'', JStr (ascii ''narrative'')),
           (ascii ''response'', JStr (ascii ''You see a door.''))]"

text \<open>\<^verbatim>\<open>{"type": "roll", "formatted": {"toString": "x"}}\<close>\<close>

definition unprintable_reply :: json where
  "unprintable_reply =
     JObj [(ascii ''type'', JStr (ascii ''roll'')),
           (ascii ''formatted'', JObj [(ascii ''toString'', JStr (ascii ''x''))])]"

text \<open>\<^verbatim>\<open>{"type": "roll", "formatted": "1d20+3 = 17"}\<close>\<close>

definition roll_reply :: json where
  "roll_reply =
     JObj [(ascii ''type'', JStr (ascii ''roll'')),
           (ascii ''formatted'', JStr (ascii ''1d20+3 = 17''))]"

section \<open>Properties of the submit handler\<close>

subsection \<open>When encodeURIComponent returns\<close>

lemma unescaped_not_surrogate:
  "uri_unescaped c \<Longrightarrow> \<not> is_trailing_surrogate c \<and> \<not> is_leading_surrogate c"
  unfolding uri_unescaped_def is_trailing_surrogate_def is_leading_surrogate_def
  by (auto simp: word_le_nat_alt)

lemma prepend_Inr: "(\<exists>t. prepend p r = Inr t) \<longleftrightarrow> (\<exists>t. r = Inr t)"
  by (cases r) (simp_all add: prepend_def)

lemma encodeURIComponent_returns:
  "(\<exists>t. encodeURIComponent s = Inr t) \<longleftrightarrow> well_formed s"
proof (induction s rule: well_formed.induct)
  case 1
  show ?case by simp
next
  case (2 c cs)
  show ?case
  proof (cases "uri_unescaped c")
    case True
    with 2 unescaped_not_surrogate [OF True] show ?thesis
      by (simp add: prepend_Inr)
  next
    case False
    with 2 show ?thesis
      by (auto simp: prepend_Inr split: list.splits)
  qed
qed

subsection \<open>The type test and the rendering chain\<close>

lemma ascii_literals_distinct:
  "ascii ''roll'' \<noteq> ascii ''narrative''"
  "ascii ''roll'' \<noteq> ascii ''command''"
  "ascii ''narrative'' \<noteq> ascii ''command''"
  by (simp_all add: ascii_def)

lemma type_equals_exclusive:
  "type_equals data ''roll'' = Inr True \<Longrightarrow>
     type_equals data ''narrative'' = Inr False \<and> type_equals data ''command'' = Inr False"
  "type_equals data ''narrative'' = Inr True \<Longrightarrow>
     type_equals data ''roll'' = Inr False \<and> type_equals data ''command'' = Inr False"
  "type_equals data ''command'' = Inr True \<Longrightarrow>
     type_equals data ''roll'' = Inr False \<and> type_equals data ''narrative'' = Inr False"
  using ascii_literals_distinct
  by (auto simp: type_equals_def strict_eq_def split: sum.splits)

text \<open>The type test throws for \<^verbatim>\<open>null\<close> and for nothing else.\<close>

lemma type_equals_throws:
  "type_equals data lit = Inl e \<longleftrightarrow> data = JNull \<and> e = TypeError"
  by (cases data) (auto simp: type_equals_def)

lemma type_equals_not_True:
  assumes "data \<noteq> JNull" and "type_equals data lit \<noteq> Inr True"
  shows "type_equals data lit = Inr False"
proof (cases "type_equals data lit")
  case (Inl e)
  with assms(1) show ?thesis by (simp add: type_equals_throws)
next
  case (Inr b)
  with assms(2) show ?thesis by (cases b) simp_all
qed

lemma render_roll:
  assumes "type_equals data ''roll'' = Inr True"
  shows "render data s = append_dm (get_prop (Some data) (ascii ''formatted'')) s"
  using assms by (simp add: render_def)

lemma render_narrative:
  assumes "type_equals data ''narrative'' = Inr True"
  shows "render data s = append_dm (get_prop (Some data) (ascii ''response'')) s"
  using assms type_equals_exclusive(2) [OF assms] by (simp add: render_def)

lemma render_command:
  assumes "type_equals data ''command'' = Inr True"
  shows "render data s = append_dm (result_message data) s"
  using assms type_equals_exclusive(3) [OF assms] by (simp add: render_def)

lemma render_other:
  assumes "type_equals data ''roll'' = Inr False"
    and "type_equals data ''narrative'' = Inr False"
    and "type_equals data ''command'' = Inr False"
  shows "render data s = Inr s"
  using assms by (simp add: render_def)

lemma render_throws:
  assumes "type_equals data ''roll'' = Inl e
         \<or> type_equals data ''command'' = Inr True \<and> result_message data = Inl e"
  shows "render data s = Inl e"
  using assms
proof
  assume "type_equals data ''roll'' = Inl e"
  then show ?thesis by (simp add: render_def)
next
  assume "type_equals data ''command'' = Inr True \<and> result_message data = Inl e"
  then show ?thesis by (simp add: render_command append_dm_def)
qed

text \<open>The tests and reads of the chain, as property reads.\<close>

lemma type_equals_True_iff:
  "type_equals data lit = Inr True \<longleftrightarrow>
     get_prop (Some data) (ascii ''type'') = Inr (Some (JStr (ascii lit)))"
  by (simp add: type_equals_def strict_eq_def split: sum.splits)

lemma type_equals_False_iff:
  "type_equals data lit = Inr False \<longleftrightarrow>
     (\<exists>t. get_prop (Some data) (ascii ''type'') = Inr t \<and> t \<noteq> Some (JStr (ascii lit)))"
  by (simp add: type_equals_def strict_eq_def split: sum.splits)

lemma type_equals_Inl_iff:
  "type_equals data lit = Inl e \<longleftrightarrow> get_prop (Some data) (ascii ''type'') = Inl e"
  by (simp add: type_equals_def split: sum.splits)

lemma result_message_Inr_iff:
  "result_message data = Inr x \<longleftrightarrow>
     (\<exists>r. get_prop (Some data) (ascii ''result'') = Inr r \<and> get_prop r (ascii ''message'') = Inr x)"
  by (simp add: result_message_def split: sum.splits)

lemma result_message_Inl:
  "get_prop (Some data) (ascii ''result'') = Inr r \<Longrightarrow> get_prop r (ascii ''message'') = Inl e \<Longrightarrow>
     result_message data = Inl e"
  by (simp add: result_message_def)

subsection \<open>The handler, reply by reply\<close>

text \<open>
  In each lemma the input field and the log exist, the trimmed input is not empty and
  \<^verbatim>\<open>encodeURIComponent\<close> returns, so the request is issued.
\<close>

lemma submit_rejected_reply:
  assumes "playerInput s = Some v" and "trim v \<noteq> []" and "messageLog s = Some l"
    and "encodeURIComponent (trim v) = Inr encoded"
    and "reply ev = FetchRejected e \<or> reply ev = JsonRejected e"
  shows "submit_handler ev s =
     (Returned,
      s\<lparr>defaultPrevented := True, playerInput := Some [],
        fetched := fetched s @ [send_request encoded],
        console := console s @ [e],
        messageLog :=
          Some (l\<lparr>children := children l @ [player_message (trim v), error_message]\<rparr>)\<rparr>)"
  using assms
  by (auto simp: submit_handler_def try_block_def catch_block_def appendChild_def Let_def)

lemma submit_render_throws:
  assumes "playerInput s = Some v" and "trim v \<noteq> []" and "messageLog s = Some l"
    and "encodeURIComponent (trim v) = Inr encoded"
    and "reply ev = JsonParsed data"
    and "\<And>s'. render data s' = Inl e"
  shows "submit_handler ev s =
     (Returned,
      s\<lparr>defaultPrevented := True, playerInput := Some [],
        fetched := fetched s @ [send_request encoded],
        console := console s @ [e],
        messageLog :=
          Some (l\<lparr>children := children l @ [player_message (trim v), error_message]\<rparr>)\<rparr>)"
  using assms(1-5)
  by (simp add: submit_handler_def try_block_def catch_block_def appendChild_def Let_def
      assms(6))

lemma submit_render_dm:
  assumes "playerInput s = Some v" and "trim v \<noteq> []" and "messageLog s = Some l"
    and "encodeURIComponent (trim v) = Inr encoded"
    and "reply ev = JsonParsed data"
    and "\<And>s'. render data s' = append_dm (Inr x) s'"
    and "\<not> text_throws x"
  shows "submit_handler ev s =
     (Returned,
      s\<lparr>defaultPrevented := True, playerInput := Some [],
        fetched := fetched s @ [send_request encoded],
        messageLog :=
          Some \<lparr>children = children l @ [player_message (trim v), dm_message x],
                scrollTop = scrollHeight ev\<rparr>\<rparr>)"
  using assms(1-5,7)
  by (simp add: submit_handler_def try_block_def appendChild_def Let_def assms(6)
      append_dm_def scroll_to_bottom_def)

lemma submit_render_unprintable:
  assumes "playerInput s = Some v" and "trim v \<noteq> []" and "messageLog s = Some l"
    and "encodeURIComponent (trim v) = Inr encoded"
    and "reply ev = JsonParsed data"
    and "\<And>s'. render data s' = append_dm (Inr x) s'"
    and "text_throws x"
  shows "submit_handler ev s =
     (Returned,
      s\<lparr>defaultPrevented := True, playerInput := Some [],
        fetched := fetched s @ [send_request encoded],
        console := console s @ [TypeError],
        messageLog :=
          Some (l\<lparr>children := children l @ [player_message (trim v), error_message]\<rparr>)\<rparr>)"
proof -
  have "render data s' = Inl TypeError" for s'
    using assms(6,7) by (simp add: append_dm_def)
  from submit_render_throws [OF assms(1-5) this] show ?thesis .
qed

lemma submit_render_nothing:
  assumes "playerInput s = Some v" and "trim v \<noteq> []" and "messageLog s = Some l"
    and "encodeURIComponent (trim v) = Inr encoded"
    and "reply ev = JsonParsed data"
    and "\<And>s'. render data s' = Inr s'"
  shows "submit_handler ev s =
     (Returned,
      s\<lparr>defaultPrevented := True, playerInput := Some [],
        fetched := fetched s @ [send_request encoded],
        messageLog :=
          Some \<lparr>children = children l @ [player_message (trim v)],
                scrollTop = scrollHeight ev\<rparr>\<rparr>)"
  using assms(1-5)
  by (simp add: submit_handler_def try_block_def appendChild_def Let_def assms(6)
      scroll_to_bottom_def)

lemma render_dm_text:
  assumes "type_equals data ''roll'' = Inr True
             \<and> get_prop (Some data) (ascii ''formatted'') = Inr x
         \<or> type_equals data ''narrative'' = Inr True
             \<and> get_prop (Some data) (ascii ''response'') = Inr x
         \<or> type_equals data ''command'' = Inr True \<and> result_message data = Inr x"
  shows "render data s = append_dm (Inr x) s"
  using assms by (auto simp: render_roll render_narrative render_command)

text \<open>
  Every JSON value takes one of three ways through the chain, whatever the page: the
  read of \<^verbatim>\<open>data.type\<close> or of the text throws, a text is read for a DM message
  (and is appended unless its assignment throws), or nothing is done.
\<close>

lemma get_prop_not_null:
  assumes "data \<noteq> JNull"
  obtains x where "get_prop (Some data) k = Inr x"
  using assms by (cases data) auto

lemma render_cases:
  "(\<exists>e. \<forall>s. render data s = Inl e)
 \<or> (\<exists>x. \<forall>s. render data s = append_dm (Inr x) s)
 \<or> (\<forall>s. render data s = Inr s)"
proof (cases "data = JNull")
  case True
  then have "render data s = Inl TypeError" for s
    by (simp add: render_def type_equals_def)
  then show ?thesis by blast
next
  case False
  show ?thesis
  proof (cases "type_equals data ''roll'' = Inr True")
    case True
    obtain x where "get_prop (Some data) (ascii ''formatted'') = Inr x"
      using False by (rule get_prop_not_null)
    with True have "render data s = append_dm (Inr x) s" for s
      by (simp add: render_roll)
    then show ?thesis by blast
  next
    case roll: False
    show ?thesis
    proof (cases "type_equals data ''narrative'' = Inr True")
      case True
      obtain x where "get_prop (Some data) (ascii ''response'') = Inr x"
        using False by (rule get_prop_not_null)
      with True have "render data s = append_dm (Inr x) s" for s
        by (simp add: render_narrative)
      then show ?thesis by blast
    next
      case narrative: False
      show ?thesis
      proof (cases "type_equals data ''command'' = Inr True")
        case True
        show ?thesis
        proof (cases "result_message data")
          case (Inl e)
          with True have "render data s = Inl e" for s
            by (simp add: render_throws)
          then show ?thesis by blast
        next
          case (Inr x)
          with True have "render data s = append_dm (Inr x) s" for s
            by (simp add: render_command)
          then show ?thesis by blast
        qed
      next
        case command: False
        have "render data s = Inr s" for s
          using False roll narrative command by (simp add: render_other type_equals_not_True)
        then show ?thesis by blast
      qed
    qed
  qed
qed

lemma submit_issues_request:
  assumes v: "playerInput s = Some v" and ne: "trim v \<noteq> []" and l: "messageLog s = Some l"
    and enc: "encodeURIComponent (trim v) = Inr encoded"
  shows "fst (submit_handler ev s) = Returned
    \<and> fetched (snd (submit_handler ev s)) = fetched s @ [send_request encoded]
    \<and> playerInput (snd (submit_handler ev s)) = Some []"
proof (cases "reply ev")
  case (FetchRejected e)
  then show ?thesis
    using submit_rejected_reply [OF v ne l enc, of ev e] by simp
next
  case (JsonRejected e)
  then show ?thesis
    using submit_rejected_reply [OF v ne l enc, of ev e] by simp
next
  case (JsonParsed data)
  from render_cases [of data] consider
      (throws) e where "\<forall>s. render data s = Inl e"
    | (dm) x where "\<forall>s. render data s = append_dm (Inr x) s"
    | (nothing) "\<forall>s. render data s = Inr s"
    by blast
  then show ?thesis
  proof cases
    case throws
    then show ?thesis
      using submit_render_throws [OF v ne l enc JsonParsed, of e] by simp
  next
    case dm
    then show ?thesis
      using submit_render_dm [OF v ne l enc JsonParsed, of x]
        submit_render_unprintable [OF v ne l enc JsonParsed, of x]
      by (cases "text_throws x") simp_all
  next
    case nothing
    then show ?thesis
      using submit_render_nothing [OF v ne l enc JsonParsed] by simp
  qed
qed

subsection \<open>The message log only grows\<close>

text \<open>
  On every path of the handler, whatever the page and the environment, the children
  the log had are still its first children, in the same order and unchanged; the
  handler only appends. A page without the log stays without it.
\<close>

lemma submit_log_grows:
  "(messageLog (snd (submit_handler ev s)) = None \<longleftrightarrow> messageLog s = None)
   \<and> (\<exists>ms. log_children (snd (submit_handler ev s)) = log_children s @ ms)"
proof (cases "playerInput s")
  case None
  then show ?thesis by (simp add: submit_handler_def log_children_def)
next
  case v: (Some v)
  show ?thesis
  proof (cases "trim v = []")
    case True
    with v show ?thesis by (simp add: submit_handler_def log_children_def)
  next
    case ne: False
    show ?thesis
    proof (cases "messageLog s")
      case None
      with v ne show ?thesis
        by (simp add: submit_handler_def try_block_def catch_block_def appendChild_def
            log_children_def Let_def)
    next
      case l: (Some l)
      show ?thesis
      proof (cases "encodeURIComponent (trim v)")
        case (Inl e)
        with v ne l show ?thesis
          by (simp add: submit_handler_def try_block_def catch_block_def appendChild_def
              log_children_def Let_def)
      next
        case enc: (Inr encoded)
        show ?thesis
        proof (cases "reply ev")
          case (FetchRejected e)
          then show ?thesis
            using submit_rejected_reply [OF v ne l enc, of ev e] l
            by (simp add: log_children_def)
        next
          case (JsonRejected e)
          then show ?thesis
            using submit_rejected_reply [OF v ne l enc, of ev e] l
            by (simp add: log_children_def)
        next
          case r: (JsonParsed data)
          from render_cases [of data] consider
              (throws) e where "\<forall>s. render data s = Inl e"
            | (dm) x where "\<forall>s. render data s = append_dm (Inr x) s"
            | (nothing) "\<forall>s. render data s = Inr s"
            by blast
          then show ?thesis
          proof cases
            case throws
            then show ?thesis
              using submit_render_throws [OF v ne l enc r, of e] l
              by (simp add: log_children_def)
          next
            case dm
            then show ?thesis
              using submit_render_dm [OF v ne l enc r, of x]
                submit_render_unprintable [OF v ne l enc r, of x] l
              by (cases "text_throws x") (simp_all add: log_children_def)
          next
            case nothing
            then show ?thesis
              using submit_render_nothing [OF v ne l enc r] l
              by (simp add: log_children_def)
          qed
        qed
      qed
    qed
  qed
qed

subsection \<open>Evaluation of the examples\<close>

lemmas page_defs = page_with_def empty_log_def env_with_def
lemmas string_defs = ascii_def trim_def trimmable_def is_white_space_def is_line_terminator_def
lemmas encode_defs = uri_unescaped_def is_trailing_surrogate_def is_leading_surrogate_def
  prepend_def escape_def utf8_def percent_octet_def hex_digit_def surrogate_pair_def
lemmas handler_defs = submit_handler_def try_block_def catch_block_def appendChild_def
  scroll_to_bottom_def render_def append_dm_def text_throws_def result_message_def
  type_equals_def strict_eq_def send_request_def log_children_def

section \<open>Claims\<close>

text \<open>
  C1, as amended. On every form submission whose trimmed input text is not empty and has
  no unpaired surrogate (so that \<^verbatim>\<open>encodeURIComponent\<close> returns), on a page with its
  input field and message log, the handler returns, having issued exactly one request:
  the POST to \<^verbatim>\<open>/send\<close> with content type
  \<^verbatim>\<open>application/x-www-form-urlencoded\<close> and body \<^verbatim>\<open>player_input=\<close> followed by
  the encoded input. After the player's own message the log gains
  \<^item> an error message when \<^verbatim>\<open>fetch\<close> or \<^verbatim>\<open>response.json()\<close> rejects;
  \<^item> a DM message with \<^verbatim>\<open>data.formatted\<close>, \<^verbatim>\<open>data.response\<close> or
    \<^verbatim>\<open>data.result.message\<close> when the type of the JSON answer is \<^verbatim>\<open>roll\<close>,
    \<^verbatim>\<open>narrative\<close> or \<^verbatim>\<open>command\<close> and that text can be converted to a string,
    and an error message when its conversion throws;
  \<^item> an error message when reading the answer throws (the answer is \<^verbatim>\<open>null\<close>, or
    its type is \<^verbatim>\<open>command\<close> and \<^verbatim>\<open>data.result\<close> is missing or \<^verbatim>\<open>null\<close>);
  \<^item> nothing when the type is none of the three.
\<close>

theorem submit_posts_and_renders:
  assumes v: "playerInput s = Some v" and ne: "trim v \<noteq> []" and l: "messageLog s = Some l"
    and enc: "encodeURIComponent (trim v) = Inr encoded"
  shows "fst (submit_handler ev s) = Returned
    \<and> fetched (snd (submit_handler ev s)) =
        fetched s @
        [\<lparr>url = ascii ''/send'', http_method = ascii ''POST'',
          headers = [(ascii ''Content-Type'', ascii ''application/x-www-form-urlencoded'')],
          body = ascii ''player_input='' @ encoded\<rparr>]
    \<and> (\<forall>e. reply ev = FetchRejected e \<or> reply ev = JsonRejected e \<longrightarrow>
          log_children (snd (submit_handler ev s)) =
            children l @
            [\<lparr>className = ascii ''message player-message'', textContent = Some (JStr (trim v))\<rparr>,
             \<lparr>className = ascii ''message error-message'',
              textContent = Some (JStr (ascii ''Error processing command. Please try again.''))\<rparr>])
    \<and> (\<forall>data. reply ev = JsonParsed data \<longrightarrow>
          (\<forall>x. get_prop (Some data) (ascii ''type'') = Inr (Some (JStr (ascii ''roll'')))
                  \<and> get_prop (Some data) (ascii ''formatted'') = Inr x
              \<or> get_prop (Some data) (ascii ''type'') = Inr (Some (JStr (ascii ''narrative'')))
                  \<and> get_prop (Some data) (ascii ''response'') = Inr x
              \<or> get_prop (Some data) (ascii ''type'') = Inr (Some (JStr (ascii ''command'')))
                  \<and> (\<exists>r. get_prop (Some data) (ascii ''result'') = Inr r
                          \<and> get_prop r (ascii ''message'') = Inr x) \<longrightarrow>
              log_children (snd (submit_handler ev s)) =
                children l @
                [\<lparr>className = ascii ''message player-message'',
                  textContent = Some (JStr (trim v))\<rparr>,
                 if text_throws x
                 then \<lparr>className = ascii ''message error-message'',
                       textContent =
                         Some (JStr (ascii ''Error processing command. Please try again.''))\<rparr>
                 else \<lparr>className = ascii ''message dm-message'', textContent = x\<rparr>])
        \<and> (\<forall>e. get_prop (Some data) (ascii ''type'') = Inl e
              \<or> get_prop (Some data) (ascii ''type'') = Inr (Some (JStr (ascii ''command'')))
                  \<and> (\<exists>r. get_prop (Some data) (ascii ''result'') = Inr r
                          \<and> get_prop r (ascii ''message'') = Inl e) \<longrightarrow>
              log_children (snd (submit_handler ev s)) =
                children l @
                [\<lparr>className = ascii ''message player-message'',
                  textContent = Some (JStr (trim v))\<rparr>,
                 \<lparr>className = ascii ''message error-message'',
                  textContent =
                    Some (JStr (ascii ''Error processing command. Please try again.''))\<rparr>])
        \<and> (\<forall>t. get_prop (Some data) (ascii ''type'') = Inr t
                \<and> t \<noteq> Some (JStr (ascii ''roll'')) \<and> t \<noteq> Some (JStr (ascii ''narrative''))
                \<and> t \<noteq> Some (JStr (ascii ''command'')) \<longrightarrow>
              log_children (snd (submit_handler ev s)) =
                children l @
                [\<lparr>className = ascii ''message player-message'',
                  textContent = Some (JStr (trim v))\<rparr>]))"
proof (intro conjI allI impI)
  show "fst (submit_handler ev s) = Returned"
    using submit_issues_request [OF v ne l enc] by simp
  show "fetched (snd (submit_handler ev s)) =
        fetched s @
        [\<lparr>url = ascii ''/send'', http_method = ascii ''POST'',
          headers = [(ascii ''Content-Type'', ascii ''application/x-www-form-urlencoded'')],
          body = ascii ''player_input='' @ encoded\<rparr>]"
    using submit_issues_request [OF v ne l enc] by (simp add: send_request_def)
next
  fix e
  assume "reply ev = FetchRejected e \<or> reply ev = JsonRejected e"
  from submit_rejected_reply [OF v ne l enc this]
  show "log_children (snd (submit_handler ev s)) =
      children l @
      [\<lparr>className = ascii ''message player-message'', textContent = Some (JStr (trim v))\<rparr>,
       \<lparr>className = ascii ''message error-message'',
        textContent = Some (JStr (ascii ''Error processing command. Please try again.''))\<rparr>]"
    by (simp add: log_children_def player_message_def error_message_def message_def)
next
  fix data x
  assume r: "reply ev = JsonParsed data"
    and "get_prop (Some data) (ascii ''type'') = Inr (Some (JStr (ascii ''roll'')))
            \<and> get_prop (Some data) (ascii ''formatted'') = Inr x
        \<or> get_prop (Some data) (ascii ''type'') = Inr (Some (JStr (ascii ''narrative'')))
            \<and> get_prop (Some data) (ascii ''response'') = Inr x
        \<or> get_prop (Some data) (ascii ''type'') = Inr (Some (JStr (ascii ''command'')))
            \<and> (\<exists>r. get_prop (Some data) (ascii ''result'') = Inr r
                    \<and> get_prop r (ascii ''message'') = Inr x)"
  then have "type_equals data ''roll'' = Inr True
             \<and> get_prop (Some data) (ascii ''formatted'') = Inr x
         \<or> type_equals data ''narrative'' = Inr True
             \<and> get_prop (Some data) (ascii ''response'') = Inr x
         \<or> type_equals data ''command'' = Inr True \<and> result_message data = Inr x"
    by (simp only: type_equals_True_iff result_message_Inr_iff)
  then have rd: "render data s' = append_dm (Inr x) s'" for s'
    by (rule render_dm_text)
  show "log_children (snd (submit_handler ev s)) =
      children l @
      [\<lparr>className = ascii ''message player-message'', textContent = Some (JStr (trim v))\<rparr>,
       if text_throws x
       then \<lparr>className = ascii ''message error-message'',
             textContent = Some (JStr (ascii ''Error processing command. Please try again.''))\<rparr>
       else \<lparr>className = ascii ''message dm-message'', textContent = x\<rparr>]"
  proof (cases "text_throws x")
    case True
    from submit_render_unprintable [OF v ne l enc r rd True] True
    show ?thesis
      by (simp add: log_children_def player_message_def error_message_def message_def)
  next
    case False
    from submit_render_dm [OF v ne l enc r rd False] False
    show ?thesis
      by (simp add: log_children_def player_message_def dm_message_def message_def)
  qed
next
  fix data e
  assume r: "reply ev = JsonParsed data"
    and "get_prop (Some data) (ascii ''type'') = Inl e
        \<or> get_prop (Some data) (ascii ''type'') = Inr (Some (JStr (ascii ''command'')))
            \<and> (\<exists>r. get_prop (Some data) (ascii ''result'') = Inr r
                    \<and> get_prop r (ascii ''message'') = Inl e)"
  then have "type_equals data ''roll'' = Inl e
        \<or> type_equals data ''command'' = Inr True \<and> result_message data = Inl e"
    by (auto simp: type_equals_True_iff type_equals_Inl_iff result_message_Inl)
  from submit_render_throws [OF v ne l enc r render_throws [OF this]]
  show "log_children (snd (submit_handler ev s)) =
      children l @
      [\<lparr>className = ascii ''message player-message'', textContent = Some (JStr (trim v))\<rparr>,
       \<lparr>className = ascii ''message error-message'',
        textContent = Some (JStr (ascii ''Error processing command. Please try again.''))\<rparr>]"
    by (simp add: log_children_def player_message_def error_message_def message_def)
next
  fix data t
  assume r: "reply ev = JsonParsed data"
    and t: "get_prop (Some data) (ascii ''type'') = Inr t
        \<and> t \<noteq> Some (JStr (ascii ''roll'')) \<and> t \<noteq> Some (JStr (ascii ''narrative''))
        \<and> t \<noteq> Some (JStr (ascii ''command''))"
  then have "type_equals data ''roll'' = Inr False" "type_equals data ''narrative'' = Inr False"
    "type_equals data ''command'' = Inr False"
    by (simp_all add: type_equals_False_iff)
  then have "render data s' = Inr s'" for s'
    by (simp add: render_other)
  from submit_render_nothing [OF v ne l enc r this]
  show "log_children (snd (submit_handler ev s)) =
      children l @
      [\<lparr>className = ascii ''message player-message'', textContent = Some (JStr (trim v))\<rparr>]"
    by (simp add: log_children_def player_message_def message_def)
qed


text \<open>
  The witness: \<^verbatim>\<open>"  look around "\<close> is submitted, and the server answers with a
  roll, a narrative, a command with its result, a roll whose text cannot be converted
  to a string, or it cannot be reached, or it answers with a command that has no
  result, or with a response of type \<^verbatim>\<open>chat\<close>.
\<close>

theorem submit_posts_and_renders_witness:
  "playerInput look_page = Some (ascii ''  look around '')
   \<and> trim (ascii ''  look around '') = ascii ''look around''
   \<and> messageLog look_page = Some \<lparr>children = [], scrollTop = 0\<rparr>
   \<and> encodeURIComponent (ascii ''look around'') = Inr (ascii ''look%20around'')
   \<and> fst (submit_handler (env_with (JsonParsed roll_reply)) look_page) = Returned
   \<and> fetched (snd (submit_handler (env_with (JsonParsed roll_reply)) look_page)) =
       [\<lparr>url = ascii ''/send'', http_method = ascii ''POST'',
         headers = [(ascii ''Content-Type'', ascii ''application/x-www-form-urlencoded'')],
         body = ascii ''player_input=look%20around''\<rparr>]
   \<and> log_children (snd (submit_handler (env_with (JsonParsed roll_reply)) look_page)) =
       [\<lparr>className = ascii ''message player-message'',
         textContent = Some (JStr (ascii ''look around''))\<rparr>,
        \<lparr>className = ascii ''message dm-message'',
         textContent = Some (JStr (ascii ''1d20+3 = 17''))\<rparr>]
   \<and> log_children (snd (submit_handler (env_with (JsonParsed narrative_reply)) look_page)) =
       [\<lparr>className = ascii ''message player-message'',
         textContent = Some (JStr (ascii ''look around''))\<rparr>,
        \<lparr>className = ascii ''message dm-message'',
         textContent = Some (JStr (ascii ''You see a door.''))\<rparr>]
   \<and> log_children (snd (submit_handler (env_with (JsonParsed command_reply)) look_page)) =
       [\<lparr>className = ascii ''message player-message'',
         textContent = Some (JStr (ascii ''look around''))\<rparr>,
        \<lparr>className = ascii ''message dm-message'',
         textContent = Some (JStr (ascii ''Door opened''))\<rparr>]
   \<and> log_children (snd (submit_handler (env_with (JsonParsed unprintable_reply)) look_page)) =
       [\<lparr>className = ascii ''message player-message'',
         textContent = Some (JStr (ascii ''look around''))\<rparr>,
        \<lparr>className = ascii ''message error-message'',
         textContent = Some (JStr (ascii ''Error processing command. Please try again.''))\<rparr>]
   \<and> log_children (snd (submit_handler (env_with (FetchRejected TypeError)) look_page)) =
       [\<lparr>className = ascii ''message player-message'',
         textContent = Some (JStr (ascii ''look around''))\<rparr>,
        \<lparr>className = ascii ''message error-message'',
         textContent = Some (JStr (ascii ''Error processing command. Please try again.''))\<rparr>]
   \<and> log_children (snd (submit_handler (env_with (JsonParsed bare_command_reply)) look_page)) =
       [\<lparr>className = ascii ''message player-message'',
         textContent = Some (JStr (ascii ''look around''))\<rparr>,
        \<lparr>className = ascii ''message error-message'',
         textContent = Some (JStr (ascii ''Error processing command. Please try again.''))\<rparr>]
   \<and> log_children (snd (submit_handler (env_with (JsonParsed chat_reply)) look_page)) =
       [\<lparr>className = ascii ''message player-message'',
         textContent = Some (JStr (ascii ''look around''))\<rparr>]"
proof -
  have t: "trim (ascii ''  look around '') = ascii ''look around''"
    by (simp add: string_defs)
  have v: "playerInput look_page = Some (ascii ''  look around '')"
    by (simp add: look_page_def page_with_def)
  have ne: "trim (ascii ''  look around '') \<noteq> []"
    by (simp add: string_defs)
  have l: "messageLog look_page = Some \<lparr>children = [], scrollTop = 0\<rparr>"
    by (simp add: look_page_def page_with_def empty_log_def)
  have e: "encodeURIComponent (ascii ''look around'') = Inr (ascii ''look%20around'')"
    by (simp add: ascii_def encode_defs)
  have enc: "encodeURIComponent (trim (ascii ''  look around '')) = Inr (ascii ''look%20around'')"
    unfolding t by (rule e)
  have f: "fetched look_page = []"
    by (simp add: look_page_def page_with_def)
  have b: "ascii ''player_input='' @ ascii ''look%20around'' = ascii ''player_input=look%20around''"
    by (simp add: ascii_def)
  note post = submit_posts_and_renders [OF v ne l enc, unfolded f t b, simplified]
  have r: "reply (env_with rp) = rp" for rp
    by (simp add: env_with_def)
  have roll: "get_prop (Some roll_reply) (ascii ''type'') = Inr (Some (JStr (ascii ''roll'')))"
    "get_prop (Some roll_reply) (ascii ''formatted'') = Inr (Some (JStr (ascii ''1d20+3 = 17'')))"
    "\<not> text_throws (Some (JStr (ascii ''1d20+3 = 17'')))"
    by (simp_all add: roll_reply_def text_throws_def ascii_def)
  have narrative:
    "get_prop (Some narrative_reply) (ascii ''type'') = Inr (Some (JStr (ascii ''narrative'')))"
    "get_prop (Some narrative_reply) (ascii ''response'') =
       Inr (Some (JStr (ascii ''You see a door.'')))"
    "\<not> text_throws (Some (JStr (ascii ''You see a door.'')))"
    by (simp_all add: narrative_reply_def text_throws_def ascii_def)
  have command:
    "get_prop (Some command_reply) (ascii ''type'') = Inr (Some (JStr (ascii ''command'')))"
    "get_prop (Some command_reply) (ascii ''result'') =
       Inr (Some (JObj [(ascii ''message'', JStr (ascii ''Door opened''))]))"
    "get_prop (Some (JObj [(ascii ''message'', JStr (ascii ''Door opened''))])) (ascii ''message'') =
       Inr (Some (JStr (ascii ''Door opened'')))"
    "\<not> text_throws (Some (JStr (ascii ''Door opened'')))"
    by (simp_all add: command_reply_def text_throws_def ascii_def)
  have unprintable:
    "get_prop (Some unprintable_reply) (ascii ''type'') = Inr (Some (JStr (ascii ''roll'')))"
    "get_prop (Some unprintable_reply) (ascii ''formatted'') =
       Inr (Some (JObj [(ascii ''toString'', JStr (ascii ''x''))]))"
    "text_throws (Some (JObj [(ascii ''toString'', JStr (ascii ''x''))]))"
    by (simp_all add: unprintable_reply_def text_throws_def ascii_def)
  have bare:
    "get_prop (Some bare_command_reply) (ascii ''type'') = Inr (Some (JStr (ascii ''command'')))"
    "get_prop (Some bare_command_reply) (ascii ''result'') = Inr None"
    "get_prop None (ascii ''message'') = Inl TypeError"
    by (simp_all add: bare_command_reply_def ascii_def)
  have chat:
    "get_prop (Some chat_reply) (ascii ''type'') = Inr (Some (JStr (ascii ''chat'')))"
    "Some (JStr (ascii ''chat'')) \<noteq> Some (JStr (ascii ''roll''))"
    "Some (JStr (ascii ''chat'')) \<noteq> Some (JStr (ascii ''narrative''))"
    "Some (JStr (ascii ''chat'')) \<noteq> Some (JStr (ascii ''command''))"
    by (simp_all add: chat_reply_def ascii_def)
  have 1: "fst (submit_handler (env_with (JsonParsed roll_reply)) look_page) = Returned"
    and 2: "fetched (snd (submit_handler (env_with (JsonParsed roll_reply)) look_page)) =
       [\<lparr>url = ascii ''/send'', http_method = ascii ''POST'',
         headers = [(ascii ''Content-Type'', ascii ''application/x-www-form-urlencoded'')],
         body = ascii ''player_input=look%20around''\<rparr>]"
    using post [of "env_with (JsonParsed roll_reply)"] by blast+
  have 3: "log_children (snd (submit_handler (env_with (JsonParsed roll_reply)) look_page)) =
       [\<lparr>className = ascii ''message player-message'',
         textContent = Some (JStr (ascii ''look around''))\<rparr>,
        \<lparr>className = ascii ''message dm-message'',
         textContent = Some (JStr (ascii ''1d20+3 = 17''))\<rparr>]"
    using post [of "env_with (JsonParsed roll_reply)"] r roll by auto
  have 4: "log_children (snd (submit_handler (env_with (JsonParsed narrative_reply)) look_page)) =
       [\<lparr>className = ascii ''message player-message'',
         textContent = Some (JStr (ascii ''look around''))\<rparr>,
        \<lparr>className = ascii ''message dm-message'',
         textContent = Some (JStr (ascii ''You see a door.''))\<rparr>]"
    using post [of "env_with (JsonParsed narrative_reply)"] r narrative by auto
  have 5: "log_children (snd (submit_handler (env_with (JsonParsed command_reply)) look_page)) =
       [\<lparr>className = ascii ''message player-message'',
         textContent = Some (JStr (ascii ''look around''))\<rparr>,
        \<lparr>className = ascii ''message dm-message'',
         textContent = Some (JStr (ascii ''Door opened''))\<rparr>]"
    using post [of "env_with (JsonParsed command_reply)"] r command by auto
  have 6: "log_children (snd (submit_handler (env_with (JsonParsed unprintable_reply)) look_page)) =
       [\<lparr>className = ascii ''message player-message'',
         textContent = Some (JStr (ascii ''look around''))\<rparr>,
        \<lparr>className = ascii ''message error-message'',
         textContent = Some (JStr (ascii ''Error processing command. Please try again.''))\<rparr>]"
    using post [of "env_with (JsonParsed unprintable_reply)"] r unprintable by auto
  have 7: "log_children (snd (submit_handler (env_with (FetchRejected TypeError)) look_page)) =
       [\<lparr>className = ascii ''message player-message'',
         textContent = Some (JStr (ascii ''look around''))\<rparr>,
        \<lparr>className = ascii ''message error-message'',
         textContent = Some (JStr (ascii ''Error processing command. Please try again.''))\<rparr>]"
    using post [of "env_with (FetchRejected TypeError)"] r  by auto
  have 8: "log_children (snd (submit_handler (env_with (JsonParsed bare_command_reply)) look_page)) =
       [\<lparr>className = ascii ''message player-message'',
         textContent = Some (JStr (ascii ''look around''))\<rparr>,
        \<lparr>className = ascii ''message error-message'',
         textContent = Some (JStr (ascii ''Error processing command. Please try again.''))\<rparr>]"
    using post [of "env_with (JsonParsed bare_command_reply)"] r bare by auto
  have 9: "log_children (snd (submit_handler (env_with (JsonParsed chat_reply)) look_page)) =
       [\<lparr>className = ascii ''message player-message'',
         textContent = Some (JStr (ascii ''look around''))\<rparr>]"
    using post [of "env_with (JsonParsed chat_reply)"] r chat by auto
  from v t l e 1 2 3 4 5 6 7 8 9 show ?thesis by blast
qed


text \<open>
  C1 as stated fails in two ways. The answer \<^verbatim>\<open>{"type": "chat", "response":
  "Hello"}\<close> is not rendered: the log holds the player's message only. And the input
  consisting of the unpaired surrogate \<^verbatim>\<open>U+D83D\<close> is not empty after trimming, yet no
  request is issued, since \<^verbatim>\<open>encodeURIComponent\<close> throws before \<^verbatim>\<open>fetch\<close> is
  called.
\<close>

theorem unrendered_response_counterexample:
  "trim (ascii ''hi'') \<noteq> []
   \<and> log_children (snd (submit_handler (env_with (JsonParsed chat_reply)) hi_page)) =
       [player_message (ascii ''hi'')]
   \<and> trim [0xD83D] \<noteq> []
   \<and> fetched (snd (submit_handler (env_with (JsonParsed chat_reply)) lone_surrogate_page)) = []"
proof (intro conjI)
  show "trim (ascii ''hi'') \<noteq> []" by (simp add: string_defs)
  show "trim [0xD83D] \<noteq> []" by (simp add: string_defs)
  show "log_children (snd (submit_handler (env_with (JsonParsed chat_reply)) hi_page)) =
       [player_message (ascii ''hi'')]"
    by (simp add: handler_defs hi_page_def page_defs string_defs encode_defs chat_reply_def
        player_message_def message_def Let_def)
  have "trim [0xD83D] = [0xD83D]" by (simp add: string_defs)
  moreover have "encodeURIComponent [0xD83D] = Inl URIError" by (simp add: encode_defs)
  ultimately show "fetched (snd (submit_handler (env_with (JsonParsed chat_reply)) lone_surrogate_page)) = []"
    by (simp add: handler_defs lone_surrogate_page_def page_defs Let_def)
qed

text \<open>
  C9. A submission whose input text trims to the empty string does nothing but prevent
  the default submit: the handler returns with the page as it was apart from that
  flag, so no request is issued and the message log and the input field are unchanged.
\<close>

theorem submit_blank_noop:
  assumes "playerInput s = Some v" and "trim v = []"
  shows "submit_handler ev s = (Returned, s\<lparr>defaultPrevented := True\<rparr>)
       \<and> fetched (snd (submit_handler ev s)) = fetched s
       \<and> messageLog (snd (submit_handler ev s)) = messageLog s
       \<and> playerInput (snd (submit_handler ev s)) = playerInput s"
  using assms by (simp add: submit_handler_def)

text \<open>The witness: three spaces typed into the input of a page with an empty log.\<close>

theorem submit_blank_noop_witness:
  "playerInput blank_page = Some (ascii ''   '')
   \<and> trim (ascii ''   '') = []
   \<and> submit_handler offline blank_page = (Returned, blank_page\<lparr>defaultPrevented := True\<rparr>)
   \<and> fetched (snd (submit_handler offline blank_page)) = []
   \<and> messageLog (snd (submit_handler offline blank_page)) = Some \<lparr>children = [], scrollTop = 0\<rparr>
   \<and> playerInput (snd (submit_handler offline blank_page)) = Some (ascii ''   '')"
proof -
  have v: "playerInput blank_page = Some (ascii ''   '')"
    by (simp add: blank_page_def page_with_def)
  have t: "trim (ascii ''   '') = []"
    by (simp add: trim_def ascii_def trimmable_def is_white_space_def)
  show ?thesis
    using submit_blank_noop [OF v t, of offline] v t
    by (simp add: blank_page_def page_with_def empty_log_def)
qed

text \<open>
  C10, as amended. For every server response that parses as a JSON value other than
  \<^verbatim>\<open>null\<close> and whose type is none of \<^verbatim>\<open>roll\<close>, \<^verbatim>\<open>narrative\<close> and \<^verbatim>\<open>command\<close>,
  the handler appends no DM message and no error message: the log gains the player's
  message only, nothing is written to the console, and the handler returns.
\<close>

theorem unknown_type_dropped:
  assumes v: "playerInput s = Some v" and ne: "trim v \<noteq> []" and l: "messageLog s = Some l"
    and enc: "encodeURIComponent (trim v) = Inr encoded"
    and r: "reply ev = JsonParsed data" and nn: "data \<noteq> JNull"
    and t: "type_equals data ''roll'' \<noteq> Inr True" "type_equals data ''narrative'' \<noteq> Inr True"
      "type_equals data ''command'' \<noteq> Inr True"
  shows "submit_handler ev s =
     (Returned,
      s\<lparr>defaultPrevented := True, playerInput := Some [],
        fetched := fetched s @ [send_request encoded],
        messageLog :=
          Some \<lparr>children = children l @ [player_message (trim v)],
                scrollTop = scrollHeight ev\<rparr>\<rparr>)
     \<and> log_children (snd (submit_handler ev s)) = children l @ [player_message (trim v)]
     \<and> console (snd (submit_handler ev s)) = console s"
proof -
  have "render data s' = Inr s'" for s'
    using nn t by (simp add: render_other type_equals_not_True)
  from submit_render_nothing [OF v ne l enc r this]
  show ?thesis by (simp add: log_children_def)
qed

text \<open>The witness: \<^verbatim>\<open>"hi"\<close> is answered by a response of type \<^verbatim>\<open>chat\<close>.\<close>

theorem unknown_type_dropped_witness:
  "playerInput hi_page = Some (ascii ''hi'')
   \<and> trim (ascii ''hi'') \<noteq> []
   \<and> messageLog hi_page = Some empty_log
   \<and> encodeURIComponent (trim (ascii ''hi'')) = Inr (ascii ''hi'')
   \<and> reply (env_with (JsonParsed chat_reply)) = JsonParsed chat_reply
   \<and> chat_reply \<noteq> JNull
   \<and> type_equals chat_reply ''roll'' \<noteq> Inr True
   \<and> type_equals chat_reply ''narrative'' \<noteq> Inr True
   \<and> type_equals chat_reply ''command'' \<noteq> Inr True
   \<and> submit_handler (env_with (JsonParsed chat_reply)) hi_page =
       (Returned,
        \<lparr>playerInput = Some [],
         messageLog = Some \<lparr>children = [player_message (ascii ''hi'')], scrollTop = 480\<rparr>,
         fetched = [send_request (ascii ''hi'')], console = [], defaultPrevented = True\<rparr>)"
proof -
  have t: "trim (ascii ''hi'') = ascii ''hi''"
    by (simp add: string_defs)
  have v: "playerInput hi_page = Some (ascii ''hi'')"
    by (simp add: hi_page_def page_with_def)
  have ne: "trim (ascii ''hi'') \<noteq> []"
    by (simp add: string_defs)
  have l: "messageLog hi_page = Some empty_log"
    by (simp add: hi_page_def page_with_def)
  have enc: "encodeURIComponent (trim (ascii ''hi'')) = Inr (ascii ''hi'')"
    unfolding t by (simp add: ascii_def encode_defs)
  have r: "reply (env_with (JsonParsed chat_reply)) = JsonParsed chat_reply"
    by (simp add: env_with_def)
  have nn: "chat_reply \<noteq> JNull"
    by (simp add: chat_reply_def)
  have ty: "type_equals chat_reply ''roll'' \<noteq> Inr True"
    "type_equals chat_reply ''narrative'' \<noteq> Inr True"
    "type_equals chat_reply ''command'' \<noteq> Inr True"
    by (simp_all add: chat_reply_def type_equals_def strict_eq_def ascii_def)
  from unknown_type_dropped [OF v ne l enc r nn ty]
  show ?thesis
    using v ne l enc r nn ty
    by (simp add: t hi_page_def page_with_def empty_log_def env_with_def)
qed

text \<open>
  C10 as stated fails for the JSON text \<^verbatim>\<open>null\<close>: it parses, its type is none of the
  three, and reading \<^verbatim>\<open>data.type\<close> throws, so the \<^verbatim>\<open>catch\<close> block appends the
  error message.
\<close>

theorem null_response_counterexample:
  "type_equals JNull ''roll'' \<noteq> Inr True
   \<and> type_equals JNull ''narrative'' \<noteq> Inr True
   \<and> type_equals JNull ''command'' \<noteq> Inr True
   \<and> log_children (snd (submit_handler (env_with (JsonParsed JNull)) hi_page)) =
       [player_message (ascii ''hi''), error_message]"
  by (simp add: handler_defs hi_page_def page_defs string_defs encode_defs
        player_message_def message_def Let_def)

end
